theory Spec2Isabelle
  imports Main "HOL-Library.Sublist" "HOL-Library.Multiset"
begin

section \<open>Python strings\<close>

text \<open>
  A Python \<open>str\<close> is a sequence of code points. The model is \<open>string\<close>, a list of
  \<open>char\<close>, where a \<open>char\<close> stands for the code point of the same number, so the
  strings of the model are the Python strings over the code points 0 to 255 and
  \<open>length\<close> counts code points. The tables below are those of Python 3 on that range.
\<close>

definition isspace :: "char \<Rightarrow> bool" where
  \<comment> \<open>\<open>str.isspace\<close> on one code point: TAB to CR, FS to US, space, NEL, NBSP\<close>
  "isspace c =
     (let n = (of_char c :: nat)
      in (9 \<le> n \<and> n \<le> 13) \<or> (28 \<le> n \<and> n \<le> 32) \<or> n = 133 \<or> n = 160)"

definition str_strip :: "string \<Rightarrow> string" where
  \<comment> \<open>\<open>s.strip()\<close>\<close>
  "str_strip s = rev (dropWhile isspace (rev (dropWhile isspace s)))"

definition lower_char :: "char \<Rightarrow> char" where
  \<comment> \<open>\<open>A\<close> to \<open>Z\<close>, and the Latin-1 capitals 192 to 222 other than the sign 215\<close>
  "lower_char c =
     (let n = (of_char c :: nat)
      in if (65 \<le> n \<and> n \<le> 90) \<or> (192 \<le> n \<and> n \<le> 222 \<and> n \<noteq> 215)
         then char_of (n + 32) else c)"

definition str_lower :: "string \<Rightarrow> string" where
  \<comment> \<open>\<open>s.lower()\<close>\<close>
  "str_lower s = map lower_char s"

definition is_decimal :: "char \<Rightarrow> bool" where
  \<comment> \<open>the digits \<open>int\<close> reads: \<open>0\<close> to \<open>9\<close>\<close>
  "is_decimal c = (let n = (of_char c :: nat) in 48 \<le> n \<and> n \<le> 57)"

definition is_digit :: "char \<Rightarrow> bool" where
  \<comment> \<open>the code points \<open>str.isdigit\<close> accepts: \<open>0\<close> to \<open>9\<close> and the superscripts
      two (178), three (179) and one (185), which \<open>int\<close> does not read\<close>
  "is_digit c =
     (let n = (of_char c :: nat) in (48 \<le> n \<and> n \<le> 57) \<or> n = 178 \<or> n = 179 \<or> n = 185)"

definition str_isdigit :: "string \<Rightarrow> bool" where
  \<comment> \<open>\<open>s.isdigit()\<close>: at least one character, all of them digits\<close>
  "str_isdigit s = (s \<noteq> [] \<and> list_all is_digit s)"

fun str_contains :: "string \<Rightarrow> string \<Rightarrow> bool" where
  \<comment> \<open>\<open>sub in s\<close>\<close>
  "str_contains sub [] = (sub = [])"
| "str_contains sub (c # cs) = (take (length sub) (c # cs) = sub \<or> str_contains sub cs)"

fun str_split :: "char \<Rightarrow> string \<Rightarrow> string list" where
  \<comment> \<open>\<open>s.split(d)\<close> for a one-character separator\<close>
  "str_split d [] = [[]]"
| "str_split d (c # cs) =
     (if c = d then [] # str_split d cs
      else (case str_split d cs of [] \<Rightarrow> [[c]] | p # ps \<Rightarrow> (c # p) # ps))"

datatype py_error = ValueError

fun int_digits :: "nat \<Rightarrow> string \<Rightarrow> nat option" where
  \<comment> \<open>the digits of an integer literal, read after a first digit: single underscores
      may stand between two digits\<close>
  "int_digits acc [] = Some acc"
| "int_digits acc (c # cs) =
     (if is_decimal c then int_digits (10 * acc + (of_char c - 48)) cs
      else if c = CHR ''_'' \<and> cs \<noteq> [] \<and> is_decimal (hd cs) then int_digits acc cs
      else None)"

definition int_isspace :: "char \<Rightarrow> bool" where
  \<comment> \<open>the whitespace \<open>int\<close> skips around a literal: TAB to CR and space, and the
      spaces beyond ASCII (NEL, NBSP), which it first turns into spaces. The
      separators FS to US are whitespace for \<open>str.strip\<close> and not for \<open>int\<close>.\<close>
  "int_isspace c =
     (let n = (of_char c :: nat)
      in (9 \<le> n \<and> n \<le> 13) \<or> n = 32 \<or> n = 133 \<or> n = 160)"

definition int_strip :: "string \<Rightarrow> string" where
  "int_strip s = rev (dropWhile int_isspace (rev (dropWhile int_isspace s)))"

definition MAX_STR_DIGITS :: nat where
  \<comment> \<open>the default of \<open>sys.get_int_max_str_digits()\<close>: a literal of more digits
      raises ValueError\<close>
  "MAX_STR_DIGITS = 4300"

definition py_int :: "string \<Rightarrow> py_error + int" where
  \<comment> \<open>\<open>int(s)\<close>: surrounding whitespace, an optional sign, then at most
      \<open>MAX_STR_DIGITS\<close> digits; anything else raises ValueError\<close>
  "py_int s =
     (case int_strip s of
        [] \<Rightarrow> Inl ValueError
      | c # cs \<Rightarrow>
          (let body = (if c = CHR ''-'' \<or> c = CHR ''+'' then cs else c # cs)
           in if body = [] \<or> \<not> is_decimal (hd body) then Inl ValueError
              else if length (filter is_decimal body) > MAX_STR_DIGITS then Inl ValueError
              else (case int_digits 0 body of
                      None \<Rightarrow> Inl ValueError
                    | Some n \<Rightarrow> Inr (if c = CHR ''-'' then - int n else int n))))"

section \<open>The roster\<close>

text \<open>
  The parse result is a dict with the keys \<open>red_team\<close>, \<open>blue_team\<close>, \<open>green_team\<close>,
  \<open>yellow_team\<close> and \<open>leaderboard\<close>; the team lists hold player dicts and the
  leaderboard list holds ranking dicts, each with a fixed set of keys.
\<close>

record player =
  Name :: string
  Team :: string
  Roll :: string
  Chaos_coins :: string
  Status :: string

record ranking =
  Position :: string
  RTeam :: string
  Combatant :: string
  Points :: int

record sheet_data =
  red_team :: "player list"
  blue_team :: "player list"
  green_team :: "player list"
  yellow_team :: "player list"
  leaderboard :: "ranking list"

definition empty_data :: sheet_data where
  "empty_data = \<lparr>red_team = [], blue_team = [], green_team = [], yellow_team = [], leaderboard = []\<rparr>"

datatype sheet_section = red_blue | green_yellow | leaderboard_section

type_synonym row = "string list"

type_synonym parse_state = "sheet_section option \<times> sheet_data"

section \<open>Parsing the sheet\<close>

definition first_cell :: "row \<Rightarrow> string" where
  \<comment> \<open>\<open>row[0].strip().lower()\<close>, of a row that is not empty; script.py writes
      \<open>... if row[0] else ""\<close>, which is the same text\<close>
  "first_cell r = str_lower (str_strip (r ! 0))"

definition section_marker :: "string \<Rightarrow> sheet_section option" where
  \<comment> \<open>the \<open>if\<close>/\<open>elif\<close> chain that detects a section, on the first cell\<close>
  "section_marker fc =
     (if str_contains ''red'' fc \<and> str_contains ''blue'' fc then Some red_blue
      else if str_contains ''green'' fc \<and> str_contains ''yellow'' fc then Some green_yellow
      else if str_contains ''leaderboard'' fc then Some leaderboard_section
      else None)"

definition is_header :: "string \<Rightarrow> bool" where
  \<comment> \<open>\<open>any(x in first_cell for x in ["team", "position", "name"])\<close>\<close>
  "is_header fc = list_ex (\<lambda>x. str_contains x fc) [''team'', ''position'', ''name'']"

definition player_data :: "row \<Rightarrow> player" where
  \<comment> \<open>the player dict of a row of at least three cells, with the length tests of
      script.py; old.py leaves out those on cells 1 and 2, which hold for such a row\<close>
  "player_data r =
     \<lparr>Name = str_strip (r ! 0),
      Team = (if length r > 1 then str_strip (str_lower (r ! 1)) else []),
      Roll = (if length r > 2 then str_strip (r ! 2) else []),
      Chaos_coins = (if length r > 3 \<and> str_strip (r ! 3) \<noteq> [] then str_strip (r ! 3) else ''0''),
      Status = (if length r > 4 \<and> r ! 4 \<noteq> [] then str_strip (r ! 4) else [])\<rparr>"

definition ranking_data :: "row \<Rightarrow> py_error + ranking" where
  \<comment> \<open>the ranking dict of a row of at least four cells, with the length tests of
      script.py (old.py has none; they hold for such a row); \<open>int(row[3])\<close> may raise\<close>
  "ranking_data r =
     (case (if length r > 3 \<and> str_isdigit (str_strip (r ! 3)) then py_int (r ! 3) else Inr 0) of
        Inl e \<Rightarrow> Inl e
      | Inr n \<Rightarrow>
          Inr \<lparr>Position = str_strip (r ! 0),
               RTeam = (if length r > 1 then str_strip (str_lower (r ! 1)) else []),
               Combatant = (if length r > 2 then str_strip (r ! 2) else []),
               Points = n\<rparr>)"

definition TEAMS :: "string list" where
  "TEAMS = [''red'', ''blue'', ''green'', ''yellow'']"

definition append_player :: "string \<Rightarrow> player \<Rightarrow> sheet_data \<Rightarrow> sheet_data" where
  \<comment> \<open>\<open>data[f"{team}_team"].append(player_data)\<close> for one of the four teams\<close>
  "append_player team p d =
     (if team = ''red'' then d\<lparr>red_team := red_team d @ [p]\<rparr>
      else if team = ''blue'' then d\<lparr>blue_team := blue_team d @ [p]\<rparr>
      else if team = ''green'' then d\<lparr>green_team := green_team d @ [p]\<rparr>
      else if team = ''yellow'' then d\<lparr>yellow_team := yellow_team d @ [p]\<rparr>
      else d)"

definition script_row :: "parse_state \<Rightarrow> row \<Rightarrow> py_error + parse_state" where
  \<comment> \<open>one iteration of the loop of \<open>parse_sheet_data\<close> (script.py)\<close>
  "script_row st r =
     (case st of (current_section, d) \<Rightarrow>
        if r = [] then Inr st
        else
          let fc = first_cell r in
          case section_marker fc of
            Some s \<Rightarrow> Inr (Some s, d)
          | None \<Rightarrow>
              if is_header fc then Inr st
              else if current_section = Some red_blue \<and> length r \<ge> 3 then
                (let p = player_data r in
                 if Team p = ''red'' then Inr (current_section, d\<lparr>red_team := red_team d @ [p]\<rparr>)
                 else if Team p = ''blue'' then Inr (current_section, d\<lparr>blue_team := blue_team d @ [p]\<rparr>)
                 else Inr st)
              else if current_section = Some green_yellow \<and> length r \<ge> 3 then
                (let p = player_data r in
                 if Team p = ''green'' then Inr (current_section, d\<lparr>green_team := green_team d @ [p]\<rparr>)
                 else if Team p = ''yellow'' then Inr (current_section, d\<lparr>yellow_team := yellow_team d @ [p]\<rparr>)
                 else Inr st)
              else if current_section = Some leaderboard_section \<and> length r \<ge> 4 then
                (case ranking_data r of
                   Inl e \<Rightarrow> Inl e
                 | Inr e \<Rightarrow> Inr (current_section, d\<lparr>leaderboard := leaderboard d @ [e]\<rparr>))
              else Inr st)"

definition old_row :: "parse_state \<Rightarrow> row \<Rightarrow> py_error + parse_state" where
  \<comment> \<open>one iteration of the loop of \<open>SheetManager.parse_data\<close> (old.py)\<close>
  "old_row st r =
     (case st of (current_section, d) \<Rightarrow>
        if r = [] then Inr st
        else
          let fc = first_cell r in
          case section_marker fc of
            Some s \<Rightarrow> Inr (Some s, d)
          | None \<Rightarrow>
              if is_header fc then Inr st
              else if current_section \<in> {Some red_blue, Some green_yellow} \<and> length r \<ge> 3 then
                (let team = str_strip (str_lower (r ! 1)) in
                 if team \<notin> set TEAMS then Inr st
                 else Inr (current_section, append_player team (player_data r) d))
              else if current_section = Some leaderboard_section \<and> length r \<ge> 4 then
                (case ranking_data r of
                   Inl e \<Rightarrow> Inl e
                 | Inr e \<Rightarrow> Inr (current_section, d\<lparr>leaderboard := leaderboard d @ [e]\<rparr>))
              else Inr st)"

fun run_rows :: "(parse_state \<Rightarrow> row \<Rightarrow> py_error + parse_state) \<Rightarrow> parse_state \<Rightarrow> row list
    \<Rightarrow> py_error + parse_state" where
  \<comment> \<open>the \<open>for row in all_values\<close> loop: an exception leaves the loop\<close>
  "run_rows step st [] = Inr st"
| "run_rows step st (r # rs) =
     (case step st r of Inl e \<Rightarrow> Inl e | Inr st' \<Rightarrow> run_rows step st' rs)"

definition parse_data :: "row list \<Rightarrow> py_error + sheet_data" where
  \<comment> \<open>\<open>SheetManager.parse_data\<close> (old.py), on the rows of the current sheet\<close>
  "parse_data all_values =
     (case run_rows old_row (None, empty_data) all_values of
        Inl e \<Rightarrow> Inl e
      | Inr (current_section, d) \<Rightarrow> Inr d)"

definition parse_sheet_data :: "row list \<Rightarrow> sheet_data" where
  \<comment> \<open>\<open>parse_sheet_data\<close> (script.py): its \<open>except Exception\<close> returns the empty dict\<close>
  "parse_sheet_data all_values =
     (case run_rows script_row (None, empty_data) all_values of
        Inl e \<Rightarrow> empty_data
      | Inr (current_section, d) \<Rightarrow> d)"

section \<open>Composing the scoreboard\<close>

text \<open>
  The first half of \<open>generate_scoreboard_image\<close> (script.py) and of
  \<open>generate_scoreboard\<close> (old.py) turns the parsed dict into the cards that are drawn:
  a lookup dict from the leaderboard, the list \<open>all_players\<close>, its sort, and the
  enumeration of its first sixteen elements. The drawing itself is left out.
\<close>

record standing =
  position :: string
  team :: string
  points :: int

record scored =
  name :: string
  steam :: string
  roll :: string
  status :: string
  spoints :: int
  coins :: string

definition script_points :: "int \<Rightarrow> int" where
  \<comment> \<open>\<open>int(n) if str(n).isdigit() else 0\<close> on an integer: the text of a negative
      integer starts with a minus sign\<close>
  "script_points n = (if 0 \<le> n then n else 0)"

definition script_leaderboard :: "ranking list \<Rightarrow> (string \<rightharpoonup> standing)" where
  \<comment> \<open>the loop filling the dict \<open>leaderboard\<close> in script.py: a later entry of the
      same key replaces the earlier one\<close>
  "script_leaderboard ps =
     fold (\<lambda>p m. m(str_lower (Combatant p) \<mapsto>
             \<lparr>position = Position p, team = str_lower (RTeam p),
              points = script_points (Points p)\<rparr>)) ps Map.empty"

definition old_leaderboard :: "ranking list \<Rightarrow> (string \<rightharpoonup> standing)" where
  \<comment> \<open>the dict comprehension of old.py\<close>
  "old_leaderboard ps =
     fold (\<lambda>p m. m(str_lower (Combatant p) \<mapsto>
             \<lparr>position = Position p, team = str_lower (RTeam p),
              points = Points p\<rparr>)) ps Map.empty"

definition player_card :: "(string \<rightharpoonup> standing) \<Rightarrow> player \<Rightarrow> scored" where
  \<comment> \<open>the dict built for one player; \<open>leaderboard.get(name.lower(), {}).get('points', 0)\<close>\<close>
  "player_card lb p =
     \<lparr>name = Name p,
      steam = str_lower (Team p),
      roll = Roll p,
      status = Status p,
      spoints = (case lb (str_lower (Name p)) of None \<Rightarrow> 0 | Some s \<Rightarrow> points s),
      coins = Chaos_coins p\<rparr>"

definition all_players :: "(string \<rightharpoonup> standing) \<Rightarrow> sheet_data \<Rightarrow> scored list" where
  \<comment> \<open>the two nested loops, over the teams red, blue, green, yellow in this order\<close>
  "all_players lb d =
     map (player_card lb) (red_team d @ blue_team d @ green_team d @ yellow_team d)"

definition sort_by_points :: "scored list \<Rightarrow> scored list" where
  \<comment> \<open>\<open>all_players.sort(key=lambda x: x['points'], reverse=True)\<close>: Python's sort is
      stable, also with \<open>reverse=True\<close>\<close>
  "sort_by_points xs = sort_key (\<lambda>x. - spoints x) xs"

definition cards :: "scored list \<Rightarrow> (nat \<times> scored) list" where
  \<comment> \<open>\<open>enumerate(all_players[:16])\<close> with the position \<open>i + 1\<close> that is drawn\<close>
  "cards xs = map (\<lambda>(i, x). (i + 1, x)) (enumerate 0 (take 16 (sort_by_points xs)))"

definition script_compose :: "sheet_data \<Rightarrow> (nat \<times> scored) list" where
  "script_compose d = cards (all_players (script_leaderboard (leaderboard d)) d)"

definition old_compose :: "sheet_data \<Rightarrow> (nat \<times> scored) list" where
  "old_compose d = cards (all_players (old_leaderboard (leaderboard d)) d)"

section \<open>The roll command\<close>

definition DEFAULT_ROLL_RANGE :: "int \<times> int" where
  "DEFAULT_ROLL_RANGE = (100, 200)"

definition roll_bounds :: "string \<Rightarrow> int \<times> int" where
  \<comment> \<open>\<open>try: min_roll, max_roll = map(int, roll.split('-'))\<close> with its bare
      \<open>except\<close>: the unpacking succeeds on exactly two parts that \<open>int\<close> reads, and
      every other case raises inside the \<open>try\<close>\<close>
  "roll_bounds roll_range =
     (case map py_int (str_split CHR ''-'' roll_range) of
        [Inr lo, Inr hi] \<Rightarrow> (lo, hi)
      | _ \<Rightarrow> DEFAULT_ROLL_RANGE)"

section \<open>The commands\<close>

text \<open>
  The handlers run against the chat platform and the spreadsheet. The model keeps what
  they read and write: the bot's fields, the rows of the configuration sheet, the
  messages that exist in the channels, and the global dict \<open>ACTIVE_SUBMISSIONS\<close>. What
  the platform decides (which worksheets and channels exist, the id of a new message,
  the names of users, the outcome of \<open>random.shuffle\<close>) is read from a record \<open>world\<close>.
  A sent text is a constructor of \<open>reply\<close>, one for each message of the source.
  Failures of the platform itself (a send or an edit that is refused, a sheet that
  cannot be written) are outside the model, as is the drawing of the image: the
  attachment of a message is the list of cards that would be drawn.
\<close>

fun str_nat :: "nat \<Rightarrow> string" where
  \<comment> \<open>\<open>str(n)\<close> of a natural number\<close>
  "str_nat n = (if n < 10 then [char_of (48 + n)] else str_nat (n div 10) @ [char_of (48 + n mod 10)])"

definition str_int :: "int \<Rightarrow> string" where
  "str_int n = (if n < 0 then CHR ''-'' # str_nat (nat (- n)) else str_nat (nat n))"

type_synonym image = "(nat \<times> scored) list"

record message =
  msg_channel :: nat
  msg_id :: nat
  attachment :: image

record bot =
  message_id :: "nat option"
  channel_id :: "nat option"
  current_round :: int
  config :: "row list"
  messages :: "message list"
  ACTIVE_SUBMISSIONS :: "(nat \<times> string) list"

record interaction =
  user_id :: nat
  roles :: "string list"
  channel :: nat

record world =
  worksheet :: "int \<Rightarrow> row list option"
  channels :: "nat list"
  next_id :: nat
  member_name :: "nat \<Rightarrow> string option"
  user_name :: "nat \<Rightarrow> string option"
  shuffle :: "(nat \<times> string) list \<Rightarrow> (nat \<times> string) list"

datatype reply =
    Restricted
  | Pong
  | Stats_updated
  | Created_board
  | Not_found_creating
  | Channel_not_found_creating
  | Failed_update
  | Switched int
  | Round_not_found int
  | Answer_submitted
  | No_submissions
  | Submitted "string list"
  | Anonymous_messages "(nat \<times> string) list"
  | Author_mapping "(nat \<times> string \<times> string) list"

definition has_permission :: "interaction \<Rightarrow> bool" where
  \<comment> \<open>\<open>discord.utils.get(interaction.user.roles, name="Agent of Chaos") is not None\<close>\<close>
  "has_permission i = (''Agent of Chaos'' \<in> set (roles i))"

definition update_config :: "string \<Rightarrow> string \<Rightarrow> row list \<Rightarrow> row list" where
  \<comment> \<open>\<open>SheetManager._update_config\<close>: write key and value into the first two cells of
      the first row of that key, or append a row\<close>
  "update_config key v rows =
     (case find (\<lambda>k. rows ! k \<noteq> [] \<and> str_lower (str_strip (rows ! k ! 0)) = str_lower key)
             [0..<length rows] of
        Some k \<Rightarrow> rows[k := key # v # drop 2 (rows ! k)]
      | None \<Rightarrow> rows @ [[key, v]])"

definition truthy :: "nat option \<Rightarrow> bool" where
  \<comment> \<open>the truth value of an id field: \<open>None\<close> and \<open>0\<close> are false\<close>
  "truthy x = (case x of None \<Rightarrow> False | Some n \<Rightarrow> n \<noteq> 0)"

definition find_message :: "nat \<Rightarrow> nat \<Rightarrow> message list \<Rightarrow> bool" where
  \<comment> \<open>\<open>channel.fetch_message(id)\<close> finds the message, or raises NotFound\<close>
  "find_message c m ms = list_ex (\<lambda>x. msg_channel x = c \<and> msg_id x = m) ms"

definition edit_message :: "nat \<Rightarrow> nat \<Rightarrow> image \<Rightarrow> message list \<Rightarrow> message list" where
  \<comment> \<open>\<open>msg.edit(attachments=[file])\<close>\<close>
  "edit_message c m img ms =
     map (\<lambda>x. if msg_channel x = c \<and> msg_id x = m then x\<lparr>attachment := img\<rparr> else x) ms"

definition old_send_new :: "world \<Rightarrow> nat \<Rightarrow> image \<Rightarrow> bot \<Rightarrow> bot" where
  \<comment> \<open>old.py: send the image to a channel, keep the ids, write them to the config sheet\<close>
  "old_send_new w c img b =
     b\<lparr>messages := messages b @ [\<lparr>msg_channel = c, msg_id = next_id w, attachment = img\<rparr>],
       message_id := Some (next_id w),
       channel_id := Some c,
       config := update_config ''channel_id'' (str_nat c)
                   (update_config ''message_id'' (str_nat (next_id w)) (config b))\<rparr>"

definition old_update_stats :: "world \<Rightarrow> interaction \<Rightarrow> bot \<Rightarrow> reply list \<times> bot" where
  \<comment> \<open>\<open>BattleStatsBot.update_stats\<close> (old.py)\<close>
  "old_update_stats w i b =
     (case worksheet w (current_round b) of
        None \<Rightarrow> ([Failed_update], b)
      | Some rows \<Rightarrow>
          (case parse_data rows of
             Inl e \<Rightarrow> ([Failed_update], b)
           | Inr d \<Rightarrow>
               let img = old_compose d in
               if truthy (message_id b) \<and> truthy (channel_id b)
                  \<and> the (channel_id b) \<in> set (channels w)
                  \<and> find_message (the (channel_id b)) (the (message_id b)) (messages b)
               then ([Stats_updated],
                     b\<lparr>messages := edit_message (the (channel_id b)) (the (message_id b)) img (messages b)\<rparr>)
               else ([Created_board], old_send_new w (channel i) img b)))"

definition script_send_new :: "world \<Rightarrow> nat \<Rightarrow> image \<Rightarrow> bot \<Rightarrow> bot" where
  \<comment> \<open>script.py: send the image, keep the ids, and write both rows to the top of the
      config sheet (\<open>config_sheet.update\<close> of a two-by-two block without a range)\<close>
  "script_send_new w c img b =
     b\<lparr>messages := messages b @ [\<lparr>msg_channel = c, msg_id = next_id w, attachment = img\<rparr>],
       message_id := Some (next_id w),
       channel_id := Some c,
       config := [''message_id'', str_nat (next_id w)] # [''channel_id'', str_nat c]
                   # drop 2 (config b)\<rparr>"

definition script_update_stats :: "world \<Rightarrow> interaction \<Rightarrow> bot \<Rightarrow> reply list \<times> bot" where
  \<comment> \<open>\<open>BattleStatsBot.update_stats\<close> (script.py); its sheet is always "Round 1"\<close>
  "script_update_stats w i b =
     (let d = (case worksheet w 1 of None \<Rightarrow> empty_data | Some rows \<Rightarrow> parse_sheet_data rows);
          img = script_compose d
      in if truthy (message_id b) \<and> truthy (channel_id b) then
           (if the (channel_id b) \<in> set (channels w) then
              (if find_message (the (channel_id b)) (the (message_id b)) (messages b)
               then ([Stats_updated],
                     b\<lparr>messages := edit_message (the (channel_id b)) (the (message_id b)) img (messages b)\<rparr>)
               else ([Not_found_creating], script_send_new w (the (channel_id b)) img b))
            else ([Channel_not_found_creating], script_send_new w (channel i) img b))
         else ([Created_board], script_send_new w (channel i) img b))"

definition old_update_command :: "world \<Rightarrow> interaction \<Rightarrow> bot \<Rightarrow> reply list \<times> bot" where
  \<comment> \<open>\<open>update_command\<close> (old.py)\<close>
  "old_update_command w i b =
     (if \<not> has_permission i then ([Restricted], b) else old_update_stats w i b)"

definition script_update_command :: "world \<Rightarrow> interaction \<Rightarrow> bot \<Rightarrow> reply list \<times> bot" where
  \<comment> \<open>\<open>update_command\<close> (script.py)\<close>
  "script_update_command w i b = script_update_stats w i b"

definition old_ping :: "world \<Rightarrow> interaction \<Rightarrow> bot \<Rightarrow> reply list \<times> bot" where
  \<comment> \<open>\<open>ping\<close> (old.py)\<close>
  "old_ping w i b = (if \<not> has_permission i then ([Restricted], b) else ([Pong], b))"

definition script_ping :: "world \<Rightarrow> interaction \<Rightarrow> bot \<Rightarrow> reply list \<times> bot" where
  \<comment> \<open>\<open>ping\<close> (script.py)\<close>
  "script_ping w i b = ([Pong], b)"

definition round_command :: "world \<Rightarrow> interaction \<Rightarrow> int \<Rightarrow> bot \<Rightarrow> reply list \<times> bot" where
  \<comment> \<open>\<open>round_command\<close> with \<open>SheetManager.set_round\<close> (old.py)\<close>
  "round_command w i round_number b =
     (if \<not> has_permission i then ([Restricted], b)
      else (case worksheet w round_number of
              None \<Rightarrow> ([Round_not_found round_number], b)
            | Some rows \<Rightarrow>
                ([Switched round_number],
                 b\<lparr>current_round := round_number,
                   config := update_config ''current_round'' (str_int round_number) (config b)\<rparr>)))"

definition dict_set :: "'k \<Rightarrow> 'v \<Rightarrow> ('k \<times> 'v) list \<Rightarrow> ('k \<times> 'v) list" where
  \<comment> \<open>\<open>d[k] = v\<close> on a dict in insertion order\<close>
  "dict_set k v d =
     (if k \<in> set (map fst d) then map (\<lambda>(k', v'). if k' = k then (k', v) else (k', v')) d
      else d @ [(k, v)])"

definition anon_submit :: "world \<Rightarrow> interaction \<Rightarrow> string \<Rightarrow> bot \<Rightarrow> reply list \<times> bot" where
  \<comment> \<open>\<open>anon_submit\<close>, the command \<open>answer\<close> (old.py)\<close>
  "anon_submit w i msg b =
     ([Answer_submitted], b\<lparr>ACTIVE_SUBMISSIONS := dict_set (user_id i) msg (ACTIVE_SUBMISSIONS b)\<rparr>)"

definition author :: "world \<Rightarrow> nat \<Rightarrow> string" where
  \<comment> \<open>the name shown for a user id: the member's display name, else the fetched
      user's name, else \<open>Unknown User (id)\<close>\<close>
  "author w u =
     (case member_name w u of
        Some n \<Rightarrow> n
      | None \<Rightarrow> (case user_name w u of
                   Some n \<Rightarrow> n
                 | None \<Rightarrow> ''Unknown User ('' @ str_nat u @ '')''))"

definition show_submitted :: "world \<Rightarrow> interaction \<Rightarrow> bot \<Rightarrow> reply list \<times> bot" where
  \<comment> \<open>\<open>show_submitted\<close>, the command \<open>showsubmitted\<close> (old.py)\<close>
  "show_submitted w i b =
     (if \<not> has_permission i then ([Restricted], b)
      else if ACTIVE_SUBMISSIONS b = [] then ([No_submissions], b)
      else ([Submitted (map (\<lambda>(u, msg). author w u) (ACTIVE_SUBMISSIONS b))], b))"

definition show_anon :: "world \<Rightarrow> interaction \<Rightarrow> bot \<Rightarrow> reply list \<times> bot" where
  \<comment> \<open>\<open>show_anon\<close>, the command \<open>showanswers\<close> (old.py)\<close>
  "show_anon w i b =
     (if \<not> has_permission i then ([Restricted], b)
      else if ACTIVE_SUBMISSIONS b = [] then ([No_submissions], b)
      else
        let shuffled_messages = shuffle w (ACTIVE_SUBMISSIONS b);
            public_output = map (\<lambda>(k, (u, msg)). (k + 1, msg)) (enumerate 0 shuffled_messages);
            admin_log = map (\<lambda>(k, (u, msg)). (k, author w u, msg)) (enumerate 1 shuffled_messages)
        in ([Anonymous_messages public_output, Author_mapping admin_log],
            b\<lparr>ACTIVE_SUBMISSIONS := []\<rparr>))"

section \<open>Notions used to state the properties\<close>

definition team_cell :: "row \<Rightarrow> string" where
  \<comment> \<open>\<open>row[1].lower().strip()\<close>, of a row of at least two cells\<close>
  "team_cell r = str_strip (str_lower (r ! 1))"

definition pair_teams :: "sheet_section \<Rightarrow> string list" where
  \<comment> \<open>the teams that the branch of a section in script.py appends to\<close>
  "pair_teams s =
     (case s of
        red_blue \<Rightarrow> [''red'', ''blue'']
      | green_yellow \<Rightarrow> [''green'', ''yellow'']
      | leaderboard_section \<Rightarrow> [])"

definition plain_points :: "string \<Rightarrow> bool" where
  \<comment> \<open>a cell on which \<open>strip().isdigit()\<close> and \<open>int\<close> agree: its digits are decimal,
      its whitespace is whitespace for \<open>int\<close> too, and it is not too long\<close>
  "plain_points s =
     ((\<forall>c \<in> set s. (is_digit c \<longrightarrow> is_decimal c) \<and> (isspace c \<longrightarrow> int_isspace c))
      \<and> length s \<le> MAX_STR_DIGITS)"

definition total_players :: "sheet_data \<Rightarrow> nat" where
  "total_players d =
     length (red_team d) + length (blue_team d) + length (green_team d) + length (yellow_team d)"

section \<open>The scenario of the four rows\<close>

text \<open>
  Claim C1, as stated: the rows \<open>["RED TEAM","BLUE TEAM"]\<close>,
  \<open>["Alice","red","10-20","5",""]\<close>, \<open>["LEADERBOARD"]\<close>, \<open>["1","red","Alice","30"]\<close>
  parse into a red team holding Alice, and composing gives one record.
  Both parsers look for the two team names in the first cell alone. The first cell
  \<open>RED TEAM\<close> holds no \<open>blue\<close>, so the row is no marker; it holds \<open>team\<close> and is
  skipped as a header. Alice's row is then read with no section set and is dropped:
  the red team is empty and nothing is composed.
\<close>

theorem C1_two_cell_marker_counterexample:
  "red_team (parse_sheet_data
      [[''RED TEAM'', ''BLUE TEAM''], [''Alice'', ''red'', ''10-20'', ''5'', ''''],
       [''LEADERBOARD''], [''1'', ''red'', ''Alice'', ''30'']])
     \<noteq> [\<lparr>Name = ''Alice'', Team = ''red'', Roll = ''10-20'', Chaos_coins = ''5'', Status = ''''\<rparr>]
   \<and> length (script_compose (parse_sheet_data
      [[''RED TEAM'', ''BLUE TEAM''], [''Alice'', ''red'', ''10-20'', ''5'', ''''],
       [''LEADERBOARD''], [''1'', ''red'', ''Alice'', ''30'']])) \<noteq> 1
   \<and> parse_data
      [[''RED TEAM'', ''BLUE TEAM''], [''Alice'', ''red'', ''10-20'', ''5'', ''''],
       [''LEADERBOARD''], [''1'', ''red'', ''Alice'', ''30'']]
     = Inr \<lparr>red_team = [], blue_team = [], green_team = [], yellow_team = [],
            leaderboard = [\<lparr>Position = ''1'', RTeam = ''red'', Combatant = ''Alice'', Points = 30\<rparr>]\<rparr>"
  by code_simp

text \<open>
  Claim C1, amended: on the four rows as given, both parsers return an empty red team
  and the leaderboard entry of Alice with 30 points, and composing yields no record.
  When the marker row names both teams in its first cell (\<open>RED TEAM / BLUE TEAM\<close>),
  both parsers return the red team holding exactly Alice's record and the leaderboard
  holding exactly her entry, and composing yields exactly one record, for Alice, with
  30 points and position 1.
\<close>

theorem C1_scenario:
  "parse_sheet_data
      [[''RED TEAM'', ''BLUE TEAM''], [''Alice'', ''red'', ''10-20'', ''5'', ''''],
       [''LEADERBOARD''], [''1'', ''red'', ''Alice'', ''30'']]
     = \<lparr>red_team = [], blue_team = [], green_team = [], yellow_team = [],
        leaderboard = [\<lparr>Position = ''1'', RTeam = ''red'', Combatant = ''Alice'', Points = 30\<rparr>]\<rparr>
   \<and> script_compose (parse_sheet_data
      [[''RED TEAM'', ''BLUE TEAM''], [''Alice'', ''red'', ''10-20'', ''5'', ''''],
       [''LEADERBOARD''], [''1'', ''red'', ''Alice'', ''30'']]) = []
   \<and> parse_data
      [[''RED TEAM'', ''BLUE TEAM''], [''Alice'', ''red'', ''10-20'', ''5'', ''''],
       [''LEADERBOARD''], [''1'', ''red'', ''Alice'', ''30'']]
     = Inr \<lparr>red_team = [], blue_team = [], green_team = [], yellow_team = [],
        leaderboard = [\<lparr>Position = ''1'', RTeam = ''red'', Combatant = ''Alice'', Points = 30\<rparr>]\<rparr>
   \<and> old_compose
        \<lparr>red_team = [], blue_team = [], green_team = [], yellow_team = [],
        leaderboard = [\<lparr>Position = ''1'', RTeam = ''red'', Combatant = ''Alice'', Points = 30\<rparr>]\<rparr>
     = []
   \<and> parse_sheet_data
      [[''RED TEAM / BLUE TEAM''], [''Alice'', ''red'', ''10-20'', ''5'', ''''],
       [''LEADERBOARD''], [''1'', ''red'', ''Alice'', ''30'']]
     = \<lparr>red_team = [\<lparr>Name = ''Alice'', Team = ''red'', Roll = ''10-20'', Chaos_coins = ''5'', Status = ''''\<rparr>],
        blue_team = [], green_team = [], yellow_team = [],
        leaderboard = [\<lparr>Position = ''1'', RTeam = ''red'', Combatant = ''Alice'', Points = 30\<rparr>]\<rparr>
   \<and> script_compose (parse_sheet_data
      [[''RED TEAM / BLUE TEAM''], [''Alice'', ''red'', ''10-20'', ''5'', ''''],
       [''LEADERBOARD''], [''1'', ''red'', ''Alice'', ''30'']])
     = [(1, \<lparr>name = ''Alice'', steam = ''red'', roll = ''10-20'', status = '''', spoints = 30, coins = ''5''\<rparr>)]
   \<and> parse_data
      [[''RED TEAM / BLUE TEAM''], [''Alice'', ''red'', ''10-20'', ''5'', ''''],
       [''LEADERBOARD''], [''1'', ''red'', ''Alice'', ''30'']]
     = Inr \<lparr>red_team = [\<lparr>Name = ''Alice'', Team = ''red'', Roll = ''10-20'', Chaos_coins = ''5'', Status = ''''\<rparr>],
        blue_team = [], green_team = [], yellow_team = [],
        leaderboard = [\<lparr>Position = ''1'', RTeam = ''red'', Combatant = ''Alice'', Points = 30\<rparr>]\<rparr>
   \<and> old_compose
        \<lparr>red_team = [\<lparr>Name = ''Alice'', Team = ''red'', Roll = ''10-20'', Chaos_coins = ''5'', Status = ''''\<rparr>],
        blue_team = [], green_team = [], yellow_team = [],
        leaderboard = [\<lparr>Position = ''1'', RTeam = ''red'', Combatant = ''Alice'', Points = 30\<rparr>]\<rparr>
     = [(1, \<lparr>name = ''Alice'', steam = ''red'', roll = ''10-20'', status = '''', spoints = 30, coins = ''5''\<rparr>)]"
  by code_simp

section \<open>Properties of the parsers\<close>

lemma run_rows_append:
  "run_rows step st (xs @ ys) =
     (case run_rows step st xs of Inl e \<Rightarrow> Inl e | Inr st' \<Rightarrow> run_rows step st' ys)"
  by (induction xs arbitrary: st) (auto split: sum.splits)

lemma run_rows_skip:
  assumes "run_rows step st xs = Inr st'" and "step st' r = Inr st'"
  shows "run_rows step st (xs @ r # ys) = run_rows step st (xs @ ys)"
  using assms by (simp add: run_rows_append)

lemma script_row_header:
  assumes "r \<noteq> []" "section_marker (first_cell r) = None" "is_header (first_cell r)"
  shows "script_row st r = Inr st"
  using assms by (simp add: script_row_def split: prod.splits)

lemma old_row_header:
  assumes "r \<noteq> []" "section_marker (first_cell r) = None" "is_header (first_cell r)"
  shows "old_row st r = Inr st"
  using assms by (simp add: old_row_def split: prod.splits)

lemma run_rows_skip_any:
  assumes "\<And>st'. step st' r = Inr st'"
  shows "run_rows step st (xs @ r # ys) = run_rows step st (xs @ ys)"
  using assms by (simp add: run_rows_append split: sum.splits)

text \<open>
  Claim C10: a row that is not empty, whose first cell (trimmed, lower-cased) is no
  section marker and contains \<open>team\<close>, \<open>position\<close> or \<open>name\<close>, is skipped by both
  parsers: the loop state is unchanged, so the row produces no record and the parse
  result is that of the input without the row. This holds for a player row too, such
  as one of a player named Teamster.
\<close>

theorem C10_header_rows_skipped:
  assumes "r \<noteq> []" "section_marker (first_cell r) = None" "is_header (first_cell r)"
  shows "script_row st r = Inr st \<and> old_row st r = Inr st
       \<and> parse_sheet_data (before @ r # after) = parse_sheet_data (before @ after)
       \<and> parse_data (before @ r # after) = parse_data (before @ after)"
proof -
  have s: "\<And>st'. script_row st' r = Inr st'" using assms by (rule script_row_header)
  have p: "\<And>st'. old_row st' r = Inr st'" using assms by (rule old_row_header)
  have "run_rows script_row (None, empty_data) (before @ r # after)
        = run_rows script_row (None, empty_data) (before @ after)"
    using s by (rule run_rows_skip_any)
  moreover have "run_rows old_row (None, empty_data) (before @ r # after)
        = run_rows old_row (None, empty_data) (before @ after)"
    using p by (rule run_rows_skip_any)
  ultimately show ?thesis using s p by (simp add: parse_sheet_data_def parse_data_def)
qed

text \<open>
  The row of the player Teamster, after a red and blue marker: the row is dropped and
  the red team stays empty.
\<close>

theorem C10_header_rows_skipped_witness:
  "[''Teamster'', ''red'', ''10-20''] \<noteq> []
   \<and> section_marker (first_cell [''Teamster'', ''red'', ''10-20'']) = None
   \<and> is_header (first_cell [''Teamster'', ''red'', ''10-20''])
   \<and> script_row (Some red_blue, empty_data) [''Teamster'', ''red'', ''10-20''] = Inr (Some red_blue, empty_data)
   \<and> old_row (Some red_blue, empty_data) [''Teamster'', ''red'', ''10-20''] = Inr (Some red_blue, empty_data)
   \<and> parse_sheet_data ([[''RED / BLUE'']] @ [''Teamster'', ''red'', ''10-20''] # [[''Bob'', ''blue'', ''1-6'']])
      = parse_sheet_data ([[''RED / BLUE'']] @ [[''Bob'', ''blue'', ''1-6'']])
   \<and> parse_data ([[''RED / BLUE'']] @ [''Teamster'', ''red'', ''10-20''] # [[''Bob'', ''blue'', ''1-6'']])
      = parse_data ([[''RED / BLUE'']] @ [[''Bob'', ''blue'', ''1-6'']])
   \<and> red_team (parse_sheet_data [[''RED / BLUE''], [''Teamster'', ''red'', ''10-20''], [''Bob'', ''blue'', ''1-6'']]) = []"
proof -
  have h1: "[''Teamster'', ''red'', ''10-20''] \<noteq> []" by simp
  have h2: "section_marker (first_cell [''Teamster'', ''red'', ''10-20'']) = None" by code_simp
  have h3: "is_header (first_cell [''Teamster'', ''red'', ''10-20''])" by code_simp
  have h4: "red_team (parse_sheet_data [[''RED / BLUE''], [''Teamster'', ''red'', ''10-20''], [''Bob'', ''blue'', ''1-6'']]) = []"
    by code_simp
  show ?thesis
    using h1 h2 h3 h4
      C10_header_rows_skipped [OF h1 h2 h3, of "(Some red_blue, empty_data)" "[[''RED / BLUE'']]" "[[''Bob'', ''blue'', ''1-6'']]"]
    by blast
qed

lemma script_row_other_team:
  assumes "sec \<in> {red_blue, green_yellow}" "2 \<le> length r"
    "section_marker (first_cell r) = None" "team_cell r \<notin> set (pair_teams sec)"
  shows "script_row (Some sec, d) r = Inr (Some sec, d)"
  using assms
  by (auto simp: script_row_def player_data_def team_cell_def pair_teams_def Let_def)

lemma old_row_no_team:
  assumes "sec \<in> {red_blue, green_yellow}" "2 \<le> length r"
    "section_marker (first_cell r) = None" "team_cell r \<notin> set TEAMS"
  shows "old_row (Some sec, d) r = Inr (Some sec, d)"
  using assms
  by (auto simp: old_row_def team_cell_def Let_def)

text \<open>
  Claim C2, amended: let a row with a team cell, not a section marker, be met while
  the current section is a team pair. In \<open>parse_sheet_data\<close> (script.py), when the
  team cell is not one of the two teams of that pair, the row leaves no record: the
  result is that of the input without the row. In \<open>parse_data\<close> (old.py) the same
  holds when the team cell is none of the four team names.
\<close>

theorem C2_other_team_rows_excluded:
  assumes "sec \<in> {red_blue, green_yellow}" and "2 \<le> length r"
    and "section_marker (first_cell r) = None"
  shows "(run_rows script_row (None, empty_data) before = Inr (Some sec, d)
          \<longrightarrow> team_cell r \<notin> set (pair_teams sec)
          \<longrightarrow> parse_sheet_data (before @ r # after) = parse_sheet_data (before @ after))
       \<and> (run_rows old_row (None, empty_data) before = Inr (Some sec, d)
          \<longrightarrow> team_cell r \<notin> set TEAMS
          \<longrightarrow> parse_data (before @ r # after) = parse_data (before @ after))"
proof (intro conjI impI)
  assume b: "run_rows script_row (None, empty_data) before = Inr (Some sec, d)"
    and t: "team_cell r \<notin> set (pair_teams sec)"
  have "script_row (Some sec, d) r = Inr (Some sec, d)"
    using assms t by (rule script_row_other_team)
  with b have "run_rows script_row (None, empty_data) (before @ r # after)
        = run_rows script_row (None, empty_data) (before @ after)"
    by (rule run_rows_skip)
  then show "parse_sheet_data (before @ r # after) = parse_sheet_data (before @ after)"
    by (simp add: parse_sheet_data_def)
next
  assume b: "run_rows old_row (None, empty_data) before = Inr (Some sec, d)"
    and t: "team_cell r \<notin> set TEAMS"
  have "old_row (Some sec, d) r = Inr (Some sec, d)"
    using assms t by (rule old_row_no_team)
  with b have "run_rows old_row (None, empty_data) (before @ r # after)
        = run_rows old_row (None, empty_data) (before @ after)"
    by (rule run_rows_skip)
  then show "parse_data (before @ r # after) = parse_data (before @ after)"
    by (simp add: parse_data_def)
qed

section \<open>Properties of the composition\<close>

lemma enumerate_shift_snd: "map snd (map (\<lambda>(i, x). (i + 1, x)) (enumerate n ys)) = ys"
  by (induction ys arbitrary: n) auto

lemma enumerate_shift_fst:
  "map fst (map (\<lambda>(i, x). (i + 1, x)) (enumerate n ys)) = [Suc n..<Suc n + length ys]"
  by (induction ys arbitrary: n) (auto simp: upt_rec [of "Suc _"] simp del: upt_Suc)

lemma cards_snd: "map snd (cards xs) = take 16 (sort_by_points xs)"
  unfolding cards_def by (rule enumerate_shift_snd)

lemma length_cards: "length (cards xs) = min (length xs) 16"
  unfolding cards_def sort_by_points_def by simp

lemma cards_fst: "map fst (cards xs) = [1..<Suc (length (cards xs))]"
proof -
  have "map fst (cards xs) = [Suc 0..<Suc 0 + length (take 16 (sort_by_points xs))]"
    unfolding cards_def by (rule enumerate_shift_fst)
  also have "length (take 16 (sort_by_points xs)) = length (cards xs)"
    unfolding cards_def by simp
  finally show ?thesis by simp
qed

lemma length_all_players: "length (all_players lb d) = total_players d"
  by (simp add: all_players_def total_players_def)

lemma sorted_desc_sort_by_points:
  "sorted_wrt (\<lambda>a b. spoints b \<le> spoints a) (sort_by_points xs)"
proof -
  have "sorted (map (\<lambda>x. - spoints x) (sort_by_points xs))"
    by (simp add: sort_by_points_def)
  then show ?thesis
    by (simp add: sorted_map sorted_wrt_iff_nth_less)
qed

lemma cards_sorted: "sorted_wrt (\<lambda>a b. spoints (snd b) \<le> spoints (snd a)) (cards xs)"
proof -
  have "sorted_wrt (\<lambda>a b. spoints b \<le> spoints a) (map snd (cards xs))"
    unfolding cards_snd by (rule sorted_wrt_take) (rule sorted_desc_sort_by_points)
  then show ?thesis by (simp add: sorted_wrt_map)
qed

lemma filter_take_prefix: "prefix (filter P (take n xs)) (filter P xs)"
proof -
  have "filter P xs = filter P (take n xs) @ filter P (drop n xs)"
    by (metis append_take_drop_id filter_append)
  then show ?thesis by (metis prefixI)
qed

lemma sort_by_points_stable:
  "filter (\<lambda>x. spoints x = k) (sort_by_points xs) = filter (\<lambda>x. spoints x = k) xs"
proof -
  have "filter (\<lambda>x. - spoints x = - k) (sort_key (\<lambda>x. - spoints x) xs)
        = filter (\<lambda>x. - spoints x = - k) xs"
    by (rule sort_key_stable)
  then show ?thesis by (simp add: sort_by_points_def)
qed

lemma cards_stable:
  "prefix (filter (\<lambda>x. spoints x = k) (map snd (cards xs))) (filter (\<lambda>x. spoints x = k) xs)"
  unfolding cards_snd
  using filter_take_prefix [of "\<lambda>x. spoints x = k" 16 "sort_by_points xs"]
  by (simp add: sort_by_points_stable)

text \<open>
  Claim C4: the composed records are in descending order of points, and for every
  number of points the records with that many points are, in their order, an initial
  part of the records with that many points in the combination order (teams red,
  blue, green, yellow, each in row order): equal points keep their relative order.
\<close>

theorem C4_sorted_and_stable:
  "sorted_wrt (\<lambda>a b. spoints (snd b) \<le> spoints (snd a)) (script_compose d)
   \<and> prefix (filter (\<lambda>x. spoints x = k) (map snd (script_compose d)))
       (filter (\<lambda>x. spoints x = k) (all_players (script_leaderboard (leaderboard d)) d))
   \<and> sorted_wrt (\<lambda>a b. spoints (snd b) \<le> spoints (snd a)) (old_compose d)
   \<and> prefix (filter (\<lambda>x. spoints x = k) (map snd (old_compose d)))
       (filter (\<lambda>x. spoints x = k) (all_players (old_leaderboard (leaderboard d)) d))"
  unfolding script_compose_def old_compose_def
  using cards_sorted cards_stable by blast

text \<open>
  Claim C5: the number of composed records is the minimum of the number of players
  and 16, the positions are 1 up to that number in order, and the records are the
  first 16 of the sorted list, the others being dropped.
\<close>

theorem C5_length_and_ranks:
  "length (script_compose d) = min (total_players d) 16
   \<and> map fst (script_compose d) = [1..<Suc (length (script_compose d))]
   \<and> map snd (script_compose d)
       = take 16 (sort_by_points (all_players (script_leaderboard (leaderboard d)) d))
   \<and> length (old_compose d) = min (total_players d) 16
   \<and> map fst (old_compose d) = [1..<Suc (length (old_compose d))]
   \<and> map snd (old_compose d)
       = take 16 (sort_by_points (all_players (old_leaderboard (leaderboard d)) d))"
  unfolding script_compose_def old_compose_def
  by (simp add: length_cards length_all_players cards_fst cards_snd)

lemma fold_upd_lookup:
  "fold (\<lambda>p m. m(key p \<mapsto> val p)) ps m0 k =
     (case find (\<lambda>e. key e = k) (rev ps) of None \<Rightarrow> m0 k | Some e \<Rightarrow> Some (val e))"
  by (induction ps rule: rev_induct) auto

lemma script_leaderboard_lookup:
  "script_leaderboard ps k =
     (case find (\<lambda>e. str_lower (Combatant e) = k) (rev ps) of None \<Rightarrow> None
      | Some e \<Rightarrow> Some \<lparr>position = Position e, team = str_lower (RTeam e), points = script_points (Points e)\<rparr>)"
  unfolding script_leaderboard_def
  by (simp add: fold_upd_lookup [where key = "\<lambda>p. str_lower (Combatant p)"] split: option.splits)

lemma old_leaderboard_lookup:
  "old_leaderboard ps k =
     (case find (\<lambda>e. str_lower (Combatant e) = k) (rev ps) of None \<Rightarrow> None
      | Some e \<Rightarrow> Some \<lparr>position = Position e, team = str_lower (RTeam e), points = Points e\<rparr>)"
  unfolding old_leaderboard_def
  by (simp add: fold_upd_lookup [where key = "\<lambda>p. str_lower (Combatant p)"] split: option.splits)

lemma set_cards: "snd ` set (cards xs) \<subseteq> set xs"
proof -
  have "set (map snd (cards xs)) \<subseteq> set (sort_by_points xs)"
    unfolding cards_snd by (rule set_take_subset)
  then show ?thesis by (simp add: sort_by_points_def)
qed

lemma all_players_points:
  assumes "c \<in> set (all_players lb d)"
  shows "spoints c = (case lb (str_lower (name c)) of None \<Rightarrow> 0 | Some s \<Rightarrow> points s)"
  using assms by (auto simp: all_players_def player_card_def)

text \<open>
  Claim C6, amended: the points of every composed record are those of the last
  leaderboard entry whose lower-cased combatant equals the lower-cased player name
  (in script.py a negative number of points counts as 0), and 0 when there is no
  such entry.
\<close>

theorem C6_points_of_last_match:
  "(\<forall>c \<in> snd ` set (script_compose d).
      spoints c = (case find (\<lambda>e. str_lower (Combatant e) = str_lower (name c)) (rev (leaderboard d)) of
                     None \<Rightarrow> 0 | Some e \<Rightarrow> script_points (Points e)))
   \<and> (\<forall>c \<in> snd ` set (old_compose d).
      spoints c = (case find (\<lambda>e. str_lower (Combatant e) = str_lower (name c)) (rev (leaderboard d)) of
                     None \<Rightarrow> 0 | Some e \<Rightarrow> Points e))"
proof (intro conjI ballI)
  fix c assume "c \<in> snd ` set (script_compose d)"
  then have "c \<in> set (all_players (script_leaderboard (leaderboard d)) d)"
    using set_cards unfolding script_compose_def by blast
  then show "spoints c = (case find (\<lambda>e. str_lower (Combatant e) = str_lower (name c)) (rev (leaderboard d)) of
                     None \<Rightarrow> 0 | Some e \<Rightarrow> script_points (Points e))"
    by (simp add: all_players_points script_leaderboard_lookup split: option.splits)
next
  fix c assume "c \<in> snd ` set (old_compose d)"
  then have "c \<in> set (all_players (old_leaderboard (leaderboard d)) d)"
    using set_cards unfolding old_compose_def by blast
  then show "spoints c = (case find (\<lambda>e. str_lower (Combatant e) = str_lower (name c)) (rev (leaderboard d)) of
                     None \<Rightarrow> 0 | Some e \<Rightarrow> Points e)"
    by (simp add: all_players_points old_leaderboard_lookup split: option.splits)
qed

section \<open>Instances for the parsers and the composition\<close>

text \<open>
  Claim C2, as stated, fails on \<open>parse_data\<close> (old.py), which tests the team cell
  against all four team names whatever the section: a row of team green met in the
  red and blue section is appended to the green team.
\<close>

theorem C2_old_parser_counterexample:
  "run_rows old_row (None, empty_data) [[''RED / BLUE'']] = Inr (Some red_blue, empty_data)
   \<and> section_marker (first_cell [''Bob'', ''green'', ''1-2'']) = None
   \<and> team_cell [''Bob'', ''green'', ''1-2''] = ''green''
   \<and> ''green'' \<notin> set (pair_teams red_blue)
   \<and> parse_data [[''RED / BLUE''], [''Bob'', ''green'', ''1-2'']]
     = Inr \<lparr>red_team = [], blue_team = [],
            green_team = [\<lparr>Name = ''Bob'', Team = ''green'', Roll = ''1-2'', Chaos_coins = ''0'', Status = ''''\<rparr>],
            yellow_team = [], leaderboard = []\<rparr>"
  by code_simp

text \<open>
  A row of an unknown team in the red and blue section, for the amended claim C2.
\<close>

theorem C2_other_team_rows_excluded_witness:
  "red_blue \<in> {red_blue, green_yellow}
   \<and> 2 \<le> length [''Bob'', ''purple'', ''1-2'']
   \<and> section_marker (first_cell [''Bob'', ''purple'', ''1-2'']) = None
   \<and> run_rows script_row (None, empty_data) [[''RED / BLUE'']] = Inr (Some red_blue, empty_data)
   \<and> team_cell [''Bob'', ''purple'', ''1-2''] \<notin> set (pair_teams red_blue)
   \<and> parse_sheet_data ([[''RED / BLUE'']] @ [''Bob'', ''purple'', ''1-2''] # [[''Al'', ''red'', ''3-4'']])
      = parse_sheet_data ([[''RED / BLUE'']] @ [[''Al'', ''red'', ''3-4'']])
   \<and> run_rows old_row (None, empty_data) [[''RED / BLUE'']] = Inr (Some red_blue, empty_data)
   \<and> team_cell [''Bob'', ''purple'', ''1-2''] \<notin> set TEAMS
   \<and> parse_data ([[''RED / BLUE'']] @ [''Bob'', ''purple'', ''1-2''] # [[''Al'', ''red'', ''3-4'']])
      = parse_data ([[''RED / BLUE'']] @ [[''Al'', ''red'', ''3-4'']])"
proof -
  have h1: "red_blue \<in> {red_blue, green_yellow}" by simp
  have h2: "2 \<le> length [''Bob'', ''purple'', ''1-2'']" by simp
  have h3: "section_marker (first_cell [''Bob'', ''purple'', ''1-2'']) = None" by code_simp
  have h4: "run_rows script_row (None, empty_data) [[''RED / BLUE'']] = Inr (Some red_blue, empty_data)"
    by code_simp
  have h5: "team_cell [''Bob'', ''purple'', ''1-2''] \<notin> set (pair_teams red_blue)" by code_simp
  have h6: "run_rows old_row (None, empty_data) [[''RED / BLUE'']] = Inr (Some red_blue, empty_data)"
    by code_simp
  have h7: "team_cell [''Bob'', ''purple'', ''1-2''] \<notin> set TEAMS" by code_simp
  show ?thesis
    using h1 h2 h3 h4 h5 h6 h7
      C2_other_team_rows_excluded [OF h1 h2 h3, of "[[''RED / BLUE'']]" empty_data "[[''Al'', ''red'', ''3-4'']]"]
    by blast
qed

text \<open>
  Claim C6, as stated, fails when a later leaderboard entry has the same lower-cased
  combatant: the lookup dict keeps the last entry, so the player ANN gets 7 points
  although the leaderboard holds the entry of Ann with 42 points.
\<close>

theorem C6_later_entry_counterexample:
  "script_compose
     \<lparr>red_team = [\<lparr>Name = ''ANN'', Team = ''red'', Roll = ''1-6'', Chaos_coins = ''0'', Status = ''''\<rparr>],
      blue_team = [], green_team = [], yellow_team = [],
      leaderboard = [\<lparr>Position = ''1'', RTeam = ''red'', Combatant = ''Ann'', Points = 42\<rparr>,
                     \<lparr>Position = ''2'', RTeam = ''red'', Combatant = ''ann'', Points = 7\<rparr>]\<rparr>
     = [(1, \<lparr>name = ''ANN'', steam = ''red'', roll = ''1-6'', status = '''', spoints = 7, coins = ''0''\<rparr>)]
   \<and> old_compose
     \<lparr>red_team = [\<lparr>Name = ''ANN'', Team = ''red'', Roll = ''1-6'', Chaos_coins = ''0'', Status = ''''\<rparr>],
      blue_team = [], green_team = [], yellow_team = [],
      leaderboard = [\<lparr>Position = ''1'', RTeam = ''red'', Combatant = ''Ann'', Points = 42\<rparr>,
                     \<lparr>Position = ''2'', RTeam = ''red'', Combatant = ''ann'', Points = 7\<rparr>]\<rparr>
     = [(1, \<lparr>name = ''ANN'', steam = ''red'', roll = ''1-6'', status = '''', spoints = 7, coins = ''0''\<rparr>)]"
  by code_simp

text \<open>
  The roster of claim C6: the entry of Ann with 42 points and the player ANN, who
  gets 42 points, and a player Zed without an entry, who gets 0.
\<close>

theorem C6_points_of_last_match_witness:
  "\<lparr>name = ''ANN'', steam = ''red'', roll = ''1-6'', status = '''', spoints = 42, coins = ''0''\<rparr>
     \<in> snd ` set (script_compose
       \<lparr>red_team = [\<lparr>Name = ''ANN'', Team = ''red'', Roll = ''1-6'', Chaos_coins = ''0'', Status = ''''\<rparr>],
        blue_team = [\<lparr>Name = ''Zed'', Team = ''blue'', Roll = ''1-6'', Chaos_coins = ''0'', Status = ''''\<rparr>],
        green_team = [], yellow_team = [],
        leaderboard = [\<lparr>Position = ''1'', RTeam = ''red'', Combatant = ''Ann'', Points = 42\<rparr>]\<rparr>)
   \<and> \<lparr>name = ''Zed'', steam = ''blue'', roll = ''1-6'', status = '''', spoints = 0, coins = ''0''\<rparr>
     \<in> snd ` set (old_compose
       \<lparr>red_team = [\<lparr>Name = ''ANN'', Team = ''red'', Roll = ''1-6'', Chaos_coins = ''0'', Status = ''''\<rparr>],
        blue_team = [\<lparr>Name = ''Zed'', Team = ''blue'', Roll = ''1-6'', Chaos_coins = ''0'', Status = ''''\<rparr>],
        green_team = [], yellow_team = [],
        leaderboard = [\<lparr>Position = ''1'', RTeam = ''red'', Combatant = ''Ann'', Points = 42\<rparr>]\<rparr>)
   \<and> (case find (\<lambda>e. str_lower (Combatant e) = str_lower ''ANN'')
          (rev [\<lparr>Position = ''1'', RTeam = ''red'', Combatant = ''Ann'', Points = 42\<rparr>]) of
        None \<Rightarrow> 0 | Some e \<Rightarrow> script_points (Points e)) = 42
   \<and> (case find (\<lambda>e. str_lower (Combatant e) = str_lower ''Zed'')
          (rev [\<lparr>Position = ''1'', RTeam = ''red'', Combatant = ''Ann'', Points = 42\<rparr>]) of
        None \<Rightarrow> 0 | Some e \<Rightarrow> Points e) = 0"
proof -
  let ?d = "\<lparr>red_team = [\<lparr>Name = ''ANN'', Team = ''red'', Roll = ''1-6'', Chaos_coins = ''0'', Status = ''''\<rparr>],
        blue_team = [\<lparr>Name = ''Zed'', Team = ''blue'', Roll = ''1-6'', Chaos_coins = ''0'', Status = ''''\<rparr>],
        green_team = [], yellow_team = [],
        leaderboard = [\<lparr>Position = ''1'', RTeam = ''red'', Combatant = ''Ann'', Points = 42\<rparr>]\<rparr>"
  let ?a = "\<lparr>name = ''ANN'', steam = ''red'', roll = ''1-6'', status = '''', spoints = 42, coins = ''0''\<rparr>"
  let ?z = "\<lparr>name = ''Zed'', steam = ''blue'', roll = ''1-6'', status = '''', spoints = 0, coins = ''0''\<rparr>"
  have s: "script_compose ?d = [(1, ?a), (2, ?z)]" by code_simp
  have p: "old_compose ?d = [(1, ?a), (2, ?z)]" by code_simp
  have ha: "?a \<in> snd ` set (script_compose ?d)" unfolding s by simp
  have hz: "?z \<in> snd ` set (old_compose ?d)" unfolding p by simp
  from C6_points_of_last_match [of ?d] ha hz
  have "spoints ?a = (case find (\<lambda>e. str_lower (Combatant e) = str_lower (name ?a)) (rev (leaderboard ?d)) of
                     None \<Rightarrow> 0 | Some e \<Rightarrow> script_points (Points e))"
    and "spoints ?z = (case find (\<lambda>e. str_lower (Combatant e) = str_lower (name ?z)) (rev (leaderboard ?d)) of
                     None \<Rightarrow> 0 | Some e \<Rightarrow> Points e)"
    by blast+
  then show ?thesis using ha hz by simp
qed

section \<open>Points cells that are digits and no number\<close>

text \<open>
  \<open>parse_data\<close> (old.py) raises on a points cell only: one that \<open>isdigit\<close> accepts
  after \<open>strip\<close> and \<open>int\<close> rejects. That is a cell with a digit that is not a
  decimal digit, a cell with a separator FS to US around the digits (which \<open>strip\<close>
  removes and \<open>int\<close> does not), or a cell of more than \<open>MAX_STR_DIGITS\<close> digits.
  When no row of four cells or more has such a fourth cell, the parse returns.
\<close>

lemma int_digits_decimal: "list_all is_decimal s \<Longrightarrow> int_digits acc s \<noteq> None"
  by (induction s arbitrary: acc) auto

lemma decimal_no_sign: "is_decimal c \<Longrightarrow> c \<noteq> CHR ''-'' \<and> c \<noteq> CHR ''+''"
  by (auto simp: is_decimal_def)

lemma int_isspace_isspace: "int_isspace c \<Longrightarrow> isspace c"
  by (auto simp: int_isspace_def isspace_def Let_def)

lemma dropWhile_same:
  assumes "\<forall>c \<in> set s. P c = Q c"
  shows "dropWhile P s = dropWhile Q s"
  using assms by (induction s) auto

lemma int_strip_str_strip:
  assumes "\<forall>c \<in> set s. isspace c \<longrightarrow> int_isspace c"
  shows "int_strip s = str_strip s"
proof -
  have same: "\<forall>c \<in> set s. int_isspace c = isspace c"
    using assms int_isspace_isspace by blast
  then have d: "dropWhile int_isspace s = dropWhile isspace s"
    by (rule dropWhile_same)
  have "set (rev (dropWhile isspace s)) \<subseteq> set s"
    using set_dropWhileD by fastforce
  with same have "\<forall>c \<in> set (rev (dropWhile isspace s)). int_isspace c = isspace c"
    by blast
  then have "dropWhile int_isspace (rev (dropWhile isspace s))
      = dropWhile isspace (rev (dropWhile isspace s))"
    by (rule dropWhile_same)
  with d show ?thesis by (simp add: int_strip_def str_strip_def)
qed

lemma length_str_strip: "length (str_strip s) \<le> length s"
proof -
  have "length (dropWhile isspace (rev (dropWhile isspace s)))
      \<le> length (rev (dropWhile isspace s))"
    by (rule length_dropWhile_le)
  then have "length (str_strip s) \<le> length (dropWhile isspace s)"
    unfolding str_strip_def by simp
  also have "\<dots> \<le> length s" by (rule length_dropWhile_le)
  finally show ?thesis .
qed

lemma py_int_decimal:
  assumes "str_strip s \<noteq> []" "list_all is_decimal (str_strip s)"
    and "\<forall>c \<in> set s. isspace c \<longrightarrow> int_isspace c"
    and "length s \<le> MAX_STR_DIGITS"
  shows "\<exists>n. py_int s = Inr n"
proof -
  from assms(3) have i: "int_strip s = str_strip s" by (rule int_strip_str_strip)
  from assms(1) obtain c cs where s: "str_strip s = c # cs" by (cases "str_strip s") auto
  with assms(2) have c: "is_decimal c" and a: "list_all is_decimal (c # cs)" by auto
  from a have "int_digits 0 (c # cs) \<noteq> None" by (rule int_digits_decimal)
  then obtain n where n: "int_digits 0 (c # cs) = Some n" by blast
  have "length (filter is_decimal (c # cs)) \<le> length (c # cs)" by (rule length_filter_le)
  also have "\<dots> \<le> length s" using length_str_strip [of s] s by simp
  finally have l: "\<not> length (filter is_decimal (c # cs)) > MAX_STR_DIGITS"
    using assms(4) by simp
  have sign: "c \<noteq> CHR ''-''" "c \<noteq> CHR ''+''" using decimal_no_sign [OF c] by auto
  have "py_int s = Inr (int n)"
    unfolding py_int_def i s using sign c l n by (simp add: Let_def)
  then show ?thesis by blast
qed

lemma set_str_strip: "set (str_strip s) \<subseteq> set s"
proof -
  have "set (str_strip s) \<subseteq> set (dropWhile isspace s)"
    unfolding str_strip_def using set_dropWhileD by fastforce
  also have "\<dots> \<subseteq> set s" using set_dropWhileD by fastforce
  finally show ?thesis .
qed

lemma ranking_data_raises:
  assumes "ranking_data r = Inl e"
  shows "4 \<le> length r \<and> \<not> plain_points (r ! 3)"
proof -
  from assms have l: "length r > 3" and d: "str_isdigit (str_strip (r ! 3))"
    and p: "py_int (r ! 3) = Inl e"
    by (auto simp: ranking_data_def split: if_splits sum.splits)
  from d have ne: "str_strip (r ! 3) \<noteq> []" and dg: "list_all is_digit (str_strip (r ! 3))"
    by (auto simp: str_isdigit_def)
  have "\<not> plain_points (r ! 3)"
  proof
    assume pl: "plain_points (r ! 3)"
    then have "\<forall>c \<in> set (str_strip (r ! 3)). is_digit c \<longrightarrow> is_decimal c"
      using set_str_strip [of "r ! 3"] by (auto simp: plain_points_def)
    with dg have "list_all is_decimal (str_strip (r ! 3))" by (auto simp: list_all_iff)
    from py_int_decimal [OF ne this] pl have "\<exists>n. py_int (r ! 3) = Inr n"
      by (simp add: plain_points_def)
    with p show False by simp
  qed
  with l show ?thesis by simp
qed

lemma old_row_raises:
  assumes "old_row st r = Inl e"
  shows "4 \<le> length r \<and> \<not> plain_points (r ! 3)"
proof -
  from assms have "\<exists>e'. ranking_data r = Inl e'"
    by (auto simp: old_row_def Let_def split: prod.splits if_splits option.splits sum.splits)
  then show ?thesis using ranking_data_raises by blast
qed

lemma run_rows_old_raises:
  assumes "run_rows old_row st rows = Inl e"
  shows "\<exists>r \<in> set rows. 4 \<le> length r \<and> \<not> plain_points (r ! 3)"
  using assms
proof (induction rows arbitrary: st)
  case Nil
  then show ?case by simp
next
  case (Cons r rows)
  show ?case
  proof (cases "old_row st r")
    case (Inl e')
    then show ?thesis using old_row_raises by fastforce
  next
    case (Inr st')
    with Cons.prems have "run_rows old_row st' rows = Inl e" by simp
    from Cons.IH [OF this] show ?thesis by auto
  qed
qed

lemma parse_data_returns:
  assumes "\<forall>r \<in> set rows. 4 \<le> length r \<longrightarrow> plain_points (r ! 3)"
  shows "\<exists>d. parse_data rows = Inr d"
proof (cases "run_rows old_row (None, empty_data) rows")
  case (Inl e)
  from run_rows_old_raises [OF this] assms show ?thesis by blast
next
  case (Inr st)
  then show ?thesis by (cases st) (simp add: parse_data_def)
qed

lemma separator_points_raises:
  "parse_data [[''LEADERBOARD''], [''1'', ''red'', ''Bob'', [CHR 0x1C, CHR ''5'']]] = Inl ValueError"
  by code_simp

text \<open>
  Claim C8 says that no row makes the parse raise. The points cell is guarded by
  \<open>row[3].strip().isdigit()\<close> before \<open>int(row[3])\<close>, but \<open>isdigit\<close> accepts the
  superscript digits and \<open>int\<close> does not: on a leaderboard row whose points cell is
  the superscript two, \<open>parse_data\<close> (old.py) raises ValueError, and
  \<open>parse_sheet_data\<close> (script.py) catches it and returns the empty roster, losing the
  rows already read. A points cell that is not numeric at all, such as \<open>x\<close>, gives 0
  points, as the claim says.
\<close>

theorem C8_superscript_points:
  "parse_data [[''LEADERBOARD''], [''1'', ''red'', ''Bob'', [CHR 0xB2]]] = Inl ValueError
   \<and> parse_sheet_data [[''RED / BLUE''], [''Al'', ''red'', ''1-2''],
        [''LEADERBOARD''], [''1'', ''red'', ''Bob'', [CHR 0xB2]]] = empty_data
   \<and> parse_sheet_data [[''RED / BLUE''], [''Al'', ''red'', ''1-2''],
        [''LEADERBOARD''], [''1'', ''red'', ''Bob'', ''x'']]
     = \<lparr>red_team = [\<lparr>Name = ''Al'', Team = ''red'', Roll = ''1-2'', Chaos_coins = ''0'', Status = ''''\<rparr>],
        blue_team = [], green_team = [], yellow_team = [],
        leaderboard = [\<lparr>Position = ''1'', RTeam = ''red'', Combatant = ''Bob'', Points = 0\<rparr>]\<rparr>"
  by code_simp

section \<open>Properties of the roll bounds\<close>

lemma roll_bounds_default:
  assumes "length (str_split CHR ''-'' s) \<noteq> 2
           \<or> (\<exists>p \<in> set (str_split CHR ''-'' s). py_int p = Inl ValueError)"
  shows "roll_bounds s = DEFAULT_ROLL_RANGE"
proof (cases "str_split CHR ''-'' s")
  case Nil
  then show ?thesis by (simp add: roll_bounds_def)
next
  case (Cons a as)
  note outer = Cons
  show ?thesis
  proof (cases as)
    case Nil
    with outer show ?thesis by (simp add: roll_bounds_def split: sum.splits)
  next
    case (Cons b bs)
    with outer assms show ?thesis
      by (cases bs) (auto simp: roll_bounds_def split: sum.splits py_error.splits)
  qed
qed

lemma roll_bounds_pair:
  assumes "str_split CHR ''-'' s = [a, b]" "py_int a = Inr lo" "py_int b = Inr hi"
  shows "roll_bounds s = (lo, hi)"
  using assms by (simp add: roll_bounds_def)

lemma roll_50_75: "roll_bounds ''50-75'' = (50, 75)"
  by code_simp

lemma roll_bogus: "roll_bounds ''bogus'' = (100, 200)"
  by code_simp

lemma roll_empty: "roll_bounds '''' = (100, 200)"
  by code_simp

text \<open>
  Claim C7: the roll text \<open>50-75\<close> gives the bounds (50, 75); \<open>bogus\<close> and the empty
  text give (100, 200). In general the text is split on \<open>-\<close>: when the number of
  parts is not two, or a part is not read by \<open>int\<close>, the bounds are (100, 200), and
  two parts that \<open>int\<close> reads give these two numbers. What \<open>int\<close> reads is a literal
  of at most \<open>MAX_STR_DIGITS\<close> digits with an optional sign, inside the whitespace
  of \<open>int_isspace\<close>; a separator FS to US next to the digits makes the part malformed.
\<close>

theorem C7_roll_bounds:
  "roll_bounds ''50-75'' = (50, 75)
   \<and> roll_bounds ''bogus'' = (100, 200)
   \<and> roll_bounds '''' = (100, 200)
   \<and> (length (str_split CHR ''-'' s) \<noteq> 2
        \<or> (\<exists>p \<in> set (str_split CHR ''-'' s). py_int p = Inl ValueError)
      \<longrightarrow> roll_bounds s = (100, 200))
   \<and> (str_split CHR ''-'' s = [a, b] \<and> py_int a = Inr lo \<and> py_int b = Inr hi
      \<longrightarrow> roll_bounds s = (lo, hi))"
  using roll_50_75 roll_bogus roll_empty roll_bounds_default [of s] roll_bounds_pair [of s a b lo hi]
  by (simp add: DEFAULT_ROLL_RANGE_def)

text \<open>
  Three parts, a part that is no number, a part with the separator FS after its
  digit, and two parts with spaces, a sign and an underscore, for claim C7.
\<close>

theorem C7_roll_bounds_witness:
  "length (str_split CHR ''-'' ''1-2-3'') \<noteq> 2
   \<and> roll_bounds ''1-2-3'' = (100, 200)
   \<and> (\<exists>p \<in> set (str_split CHR ''-'' ''7-x''). py_int p = Inl ValueError)
   \<and> roll_bounds ''7-x'' = (100, 200)
   \<and> (\<exists>p \<in> set (str_split CHR ''-'' [CHR ''5'', CHR 0x1C, CHR ''-'', CHR ''1'', CHR ''0'']).
         py_int p = Inl ValueError)
   \<and> roll_bounds [CHR ''5'', CHR 0x1C, CHR ''-'', CHR ''1'', CHR ''0''] = (100, 200)
   \<and> str_split CHR ''-'' '' 5 -+1_0'' = ['' 5 '', ''+1_0'']
   \<and> py_int '' 5 '' = Inr 5 \<and> py_int ''+1_0'' = Inr 10
   \<and> roll_bounds '' 5 -+1_0'' = (5, 10)"
proof -
  have h1: "length (str_split CHR ''-'' ''1-2-3'') \<noteq> 2" by code_simp
  have h2: "\<exists>p \<in> set (str_split CHR ''-'' ''7-x''). py_int p = Inl ValueError" by code_simp
  have h6: "\<exists>p \<in> set (str_split CHR ''-'' [CHR ''5'', CHR 0x1C, CHR ''-'', CHR ''1'', CHR ''0'']).
         py_int p = Inl ValueError" by code_simp
  have h3: "str_split CHR ''-'' '' 5 -+1_0'' = ['' 5 '', ''+1_0'']" by code_simp
  have h4: "py_int '' 5 '' = Inr 5" by code_simp
  have h5: "py_int ''+1_0'' = Inr 10" by code_simp
  show ?thesis
    using h1 h2 h3 h4 h5 h6
      C7_roll_bounds [of "''1-2-3''"] C7_roll_bounds [of "''7-x''"]
      C7_roll_bounds [of "[CHR ''5'', CHR 0x1C, CHR ''-'', CHR ''1'', CHR ''0'']"]
      C7_roll_bounds [of "'' 5 -+1_0''" "'' 5 ''" "''+1_0''" 5 10]
    by blast
qed

section \<open>Properties of the commands\<close>

lemma mset_two_cases:
  assumes "mset xs = mset [a, b]"
  shows "xs = [a, b] \<or> xs = [b, a]"
proof -
  from assms have "length xs = 2" by (metis length_Cons list.size(3) mset_eq_length numeral_2_eq_2)
  then obtain x y where xs: "xs = [x, y]"
    by (metis (no_types, opaque_lifting) One_nat_def Suc_1 length_0_conv length_Suc_conv)
  with assms have "{#x, y#} = {#a, b#}" by simp
  then have "(x = a \<and> y = b) \<or> (x = b \<and> y = a)"
    by (auto simp: add_eq_conv_ex)
  with xs show ?thesis by auto
qed

text \<open>
  Claim C9: \<open>showanswers\<close> is invoked by a user who holds the role, with the pending
  submissions \<open>hi\<close> of user1 and \<open>bye\<close> of user2, and the shuffle returns a
  permutation. Then the public message holds two lines, numbered 1 and 2, with the
  two texts in some order; the private message gives, for each number, the name of
  the user who submitted that line's text; the submissions are empty afterwards, and
  a following \<open>showsubmitted\<close> answers that there are no submissions.
\<close>

theorem C9_showanswers_two_submissions:
  assumes "has_permission i"
    and "ACTIVE_SUBMISSIONS b = [(user1, ''hi''), (user2, ''bye'')]"
    and "mset (shuffle w (ACTIVE_SUBMISSIONS b)) = mset (ACTIVE_SUBMISSIONS b)"
  shows "\<exists>pub. show_anon w i b =
           ([Anonymous_messages pub,
             Author_mapping (map (\<lambda>(k, m). (k, author w (if m = ''hi'' then user1 else user2), m)) pub)],
            b\<lparr>ACTIVE_SUBMISSIONS := []\<rparr>)
         \<and> map fst pub = [1, 2]
         \<and> mset (map snd pub) = {#''hi'', ''bye''#}
         \<and> show_submitted w i (b\<lparr>ACTIVE_SUBMISSIONS := []\<rparr>)
             = ([No_submissions], b\<lparr>ACTIVE_SUBMISSIONS := []\<rparr>)"
proof -
  from assms(2,3) have "shuffle w (ACTIVE_SUBMISSIONS b) = [(user1, ''hi''), (user2, ''bye'')]
      \<or> shuffle w (ACTIVE_SUBMISSIONS b) = [(user2, ''bye''), (user1, ''hi'')]"
    using mset_two_cases [of "shuffle w (ACTIVE_SUBMISSIONS b)" "(user1, ''hi'')" "(user2, ''bye'')"]
    by simp
  then show ?thesis
  proof
    assume s: "shuffle w (ACTIVE_SUBMISSIONS b) = [(user1, ''hi''), (user2, ''bye'')]"
    show ?thesis
      by (rule exI [of _ "[(1, ''hi''), (2, ''bye'')]"])
         (use assms(1,2) s in \<open>simp add: show_anon_def show_submitted_def Let_def\<close>)
  next
    assume s: "shuffle w (ACTIVE_SUBMISSIONS b) = [(user2, ''bye''), (user1, ''hi'')]"
    show ?thesis
      by (rule exI [of _ "[(1, ''bye''), (2, ''hi'')]"])
         (use assms(1,2) s in \<open>simp add: show_anon_def show_submitted_def Let_def\<close>)
  qed
qed

text \<open>
  Claim C3, amended: in old.py, each of \<open>update\<close>, \<open>ping\<close>, \<open>round\<close>, \<open>showsubmitted\<close>
  and \<open>showanswers\<close>, invoked by a user without the role, answers with the rejection
  alone and leaves the whole state as it was. In script.py there is no role check:
  for such a user \<open>ping\<close> answers Pong and \<open>update\<close> runs and never rejects.
\<close>

theorem C3_restricted_commands:
  assumes "\<not> has_permission i"
  shows "old_update_command w i b = ([Restricted], b)
       \<and> old_ping w i b = ([Restricted], b)
       \<and> round_command w i n b = ([Restricted], b)
       \<and> show_submitted w i b = ([Restricted], b)
       \<and> show_anon w i b = ([Restricted], b)
       \<and> script_ping w i b = ([Pong], b)
       \<and> fst (script_update_command w i b)
           \<in> {[Stats_updated], [Not_found_creating], [Channel_not_found_creating], [Created_board]}"
  using assms
  by (simp add: old_update_command_def old_ping_def round_command_def show_submitted_def
      show_anon_def script_ping_def script_update_command_def script_update_stats_def Let_def)

text \<open>
  The scenario of claim C9 with a shuffle that reverses the list.
\<close>

theorem C9_showanswers_two_submissions_witness:
  "has_permission \<lparr>user_id = 9, roles = [''Agent of Chaos''], channel = 3\<rparr>
   \<and> ACTIVE_SUBMISSIONS
        \<lparr>message_id = None, channel_id = None, current_round = 1, config = [], messages = [],
         ACTIVE_SUBMISSIONS = [(1, ''hi''), (2, ''bye'')]\<rparr> = [(1, ''hi''), (2, ''bye'')]
   \<and> mset (shuffle
        \<lparr>worksheet = map_of [], channels = [], next_id = 7,
         member_name = map_of [(1, ''Ann'')], user_name = map_of [(2, ''Bob'')], shuffle = rev\<rparr>
        [(1, ''hi''), (2, ''bye'')]) = mset [(1, ''hi''), (2, ''bye'')]
   \<and> show_anon
        \<lparr>worksheet = map_of [], channels = [], next_id = 7,
         member_name = map_of [(1, ''Ann'')], user_name = map_of [(2, ''Bob'')], shuffle = rev\<rparr>
        \<lparr>user_id = 9, roles = [''Agent of Chaos''], channel = 3\<rparr>
        \<lparr>message_id = None, channel_id = None, current_round = 1, config = [], messages = [],
         ACTIVE_SUBMISSIONS = [(1, ''hi''), (2, ''bye'')]\<rparr>
      = ([Anonymous_messages [(1, ''bye''), (2, ''hi'')],
          Author_mapping [(1, ''Bob'', ''bye''), (2, ''Ann'', ''hi'')]],
         \<lparr>message_id = None, channel_id = None, current_round = 1, config = [], messages = [],
          ACTIVE_SUBMISSIONS = []\<rparr>)
   \<and> show_submitted
        \<lparr>worksheet = map_of [], channels = [], next_id = 7,
         member_name = map_of [(1, ''Ann'')], user_name = map_of [(2, ''Bob'')], shuffle = rev\<rparr>
        \<lparr>user_id = 9, roles = [''Agent of Chaos''], channel = 3\<rparr>
        \<lparr>message_id = None, channel_id = None, current_round = 1, config = [], messages = [],
         ACTIVE_SUBMISSIONS = []\<rparr>
      = ([No_submissions],
         \<lparr>message_id = None, channel_id = None, current_round = 1, config = [], messages = [],
          ACTIVE_SUBMISSIONS = []\<rparr>)"
proof -
  let ?w = "\<lparr>worksheet = map_of [], channels = [], next_id = 7,
         member_name = map_of [(1, ''Ann'')], user_name = map_of [(2, ''Bob'')], shuffle = rev\<rparr>"
  let ?i = "\<lparr>user_id = 9, roles = [''Agent of Chaos''], channel = 3\<rparr>"
  let ?b = "\<lparr>message_id = None, channel_id = None, current_round = 1, config = [], messages = [],
         ACTIVE_SUBMISSIONS = [(1, ''hi''), (2, ''bye'')]\<rparr>"
  have h1: "has_permission ?i" by (simp add: has_permission_def)
  have h2: "ACTIVE_SUBMISSIONS ?b = [(1, ''hi''), (2, ''bye'')]" by simp
  have h3: "mset (shuffle ?w (ACTIVE_SUBMISSIONS ?b)) = mset (ACTIVE_SUBMISSIONS ?b)" by simp
  from C9_showanswers_two_submissions [OF h1 h2 h3]
  obtain pub where
    a: "show_anon ?w ?i ?b =
           ([Anonymous_messages pub,
             Author_mapping (map (\<lambda>(k, m). (k, author ?w (if m = ''hi'' then 1 else 2), m)) pub)],
            ?b\<lparr>ACTIVE_SUBMISSIONS := []\<rparr>)"
    and s: "show_submitted ?w ?i (?b\<lparr>ACTIVE_SUBMISSIONS := []\<rparr>)
             = ([No_submissions], ?b\<lparr>ACTIVE_SUBMISSIONS := []\<rparr>)"
    by blast
  have e: "show_anon ?w ?i ?b =
      ([Anonymous_messages [(1, ''bye''), (2, ''hi'')],
          Author_mapping [(1, ''Bob'', ''bye''), (2, ''Ann'', ''hi'')]],
         ?b\<lparr>ACTIVE_SUBMISSIONS := []\<rparr>)"
    by (simp add: show_anon_def has_permission_def author_def Let_def)
  show ?thesis using h1 h3 e s by simp
qed

text \<open>
  Claim C3, as stated, fails on \<open>update_command\<close> of script.py: a user without the
  role invokes \<open>update\<close>, a message is posted, and the message id, the channel id and
  the configuration sheet change.
\<close>

theorem C3_script_update_counterexample:
  "\<not> has_permission \<lparr>user_id = 9, roles = [''Member''], channel = 3\<rparr>
   \<and> script_update_command
        \<lparr>worksheet = map_of [], channels = [], next_id = 7,
         member_name = map_of [], user_name = map_of [], shuffle = rev\<rparr>
        \<lparr>user_id = 9, roles = [''Member''], channel = 3\<rparr>
        \<lparr>message_id = None, channel_id = None, current_round = 1, config = [], messages = [],
         ACTIVE_SUBMISSIONS = []\<rparr>
      = ([Created_board],
         \<lparr>message_id = Some 7, channel_id = Some 3, current_round = 1,
          config = [[''message_id'', ''7''], [''channel_id'', ''3'']],
          messages = [\<lparr>msg_channel = 3, msg_id = 7, attachment = []\<rparr>],
          ACTIVE_SUBMISSIONS = []\<rparr>)"
  by code_simp

text \<open>
  A user with the role Member only, for the amended claim C3; the same \<open>update\<close> by
  a holder of the role creates the board.
\<close>

theorem C3_restricted_commands_witness:
  "\<not> has_permission \<lparr>user_id = 9, roles = [''Member''], channel = 3\<rparr>
   \<and> old_update_command
        \<lparr>worksheet = map_of [(1, [[''RED / BLUE''], [''Al'', ''red'', ''1-6'']])], channels = [3],
         next_id = 7, member_name = map_of [], user_name = map_of [], shuffle = rev\<rparr>
        \<lparr>user_id = 9, roles = [''Member''], channel = 3\<rparr>
        \<lparr>message_id = None, channel_id = None, current_round = 1, config = [], messages = [],
         ACTIVE_SUBMISSIONS = [(1, ''hi'')]\<rparr>
      = ([Restricted],
         \<lparr>message_id = None, channel_id = None, current_round = 1, config = [], messages = [],
          ACTIVE_SUBMISSIONS = [(1, ''hi'')]\<rparr>)
   \<and> show_anon
        \<lparr>worksheet = map_of [(1, [[''RED / BLUE''], [''Al'', ''red'', ''1-6'']])], channels = [3],
         next_id = 7, member_name = map_of [], user_name = map_of [], shuffle = rev\<rparr>
        \<lparr>user_id = 9, roles = [''Member''], channel = 3\<rparr>
        \<lparr>message_id = None, channel_id = None, current_round = 1, config = [], messages = [],
         ACTIVE_SUBMISSIONS = [(1, ''hi'')]\<rparr>
      = ([Restricted],
         \<lparr>message_id = None, channel_id = None, current_round = 1, config = [], messages = [],
          ACTIVE_SUBMISSIONS = [(1, ''hi'')]\<rparr>)
   \<and> fst (old_update_command
        \<lparr>worksheet = map_of [(1, [[''RED / BLUE''], [''Al'', ''red'', ''1-6'']])], channels = [3],
         next_id = 7, member_name = map_of [], user_name = map_of [], shuffle = rev\<rparr>
        \<lparr>user_id = 9, roles = [''Agent of Chaos''], channel = 3\<rparr>
        \<lparr>message_id = None, channel_id = None, current_round = 1, config = [], messages = [],
         ACTIVE_SUBMISSIONS = [(1, ''hi'')]\<rparr>) = [Created_board]"
proof -
  let ?w = "\<lparr>worksheet = map_of [(1, [[''RED / BLUE''], [''Al'', ''red'', ''1-6'']])], channels = [3],
         next_id = 7, member_name = map_of [], user_name = map_of [], shuffle = rev\<rparr>"
  let ?i = "\<lparr>user_id = 9, roles = [''Member''], channel = 3\<rparr>"
  let ?b = "\<lparr>message_id = None, channel_id = None, current_round = 1, config = [], messages = [],
         ACTIVE_SUBMISSIONS = [(1, ''hi'')]\<rparr>"
  have h: "\<not> has_permission ?i" by (simp add: has_permission_def)
  have g: "fst (old_update_command ?w \<lparr>user_id = 9, roles = [''Agent of Chaos''], channel = 3\<rparr> ?b)
      = [Created_board]"
    by code_simp
  show ?thesis
    using h g C3_restricted_commands [OF h, of ?w ?b 2] by blast
qed

end
